theory Spec2Isabelle
  imports Complex_Main
begin

section \<open>The tiling notebook of xarray-spatial\<close>

text \<open>
  The notebook \<^verbatim>\<open>examples/tiling.ipynb\<close> defines four callbacks and hands them to
  \<^verbatim>\<open>render_tiles\<close>. The callbacks are glue around geopandas, spatialpandas and
  datashader. Those libraries are not part of the notebook: each library function a
  callback uses is a parameter of its model, and a library call that can raise returns
  \<open>py_error + 'a\<close>.
\<close>

subsection \<open>Exceptions\<close>

text \<open>
  A \<^verbatim>\<open>KeyError\<close> carries the missing key, a \<^verbatim>\<open>TypeError\<close> the name of the
  parameter that got two values; \<open>Raised\<close> is any other exception, by its class name.
\<close>

datatype py_error =
    KeyError string
  | TypeError string
  | Raised string

text \<open>\<^verbatim>\<open>d[k]\<close> on a dict: the value, or \<^verbatim>\<open>KeyError(k)\<close>.\<close>

definition getitem :: "(string \<rightharpoonup> 'v) \<Rightarrow> string \<Rightarrow> py_error + 'v" where
  "getitem d k = (case d k of None \<Rightarrow> Inl (KeyError k) | Some v \<Rightarrow> Inr v)"

subsection \<open>\<^verbatim>\<open>post_render_func\<close>\<close>

text \<open>
  \<^verbatim>\<open>"x={},y={},z={}".format(vx, vy, vz)\<close>: each \<^verbatim>\<open>{}\<close> calls the
  \<^verbatim>\<open>__format__\<close> of its value, from left to right. That method belongs to the value
  and may raise anything, a \<^verbatim>\<open>KeyError\<close> included; \<open>fmt\<close> is that conversion, and
  the first conversion that raises ends the call.
\<close>

definition format_info :: "('v \<Rightarrow> py_error + string) \<Rightarrow> 'v \<Rightarrow> 'v \<Rightarrow> 'v \<Rightarrow> py_error + string" where
  "format_info fmt vx vy vz =
     (case fmt vx of
        Inl e \<Rightarrow> Inl e
      | Inr sx \<Rightarrow>
          (case fmt vy of
             Inl e \<Rightarrow> Inl e
           | Inr sy \<Rightarrow>
               (case fmt vz of
                  Inl e \<Rightarrow> Inl e
                | Inr sz \<Rightarrow> Inr (''x='' @ sx @ '',y='' @ sy @ '',z='' @ sz))))"

text \<open>
  \<^verbatim>\<open>
  def post_render_func(img, **kwargs):
      info = "x={},y={},z={}".format(kwargs['x'], kwargs['y'], kwargs['z'])
      return img
  \<close>
  \<open>post_render_info\<close> is the first line of the body. The three arguments of
  \<^verbatim>\<open>format\<close> are evaluated left to right before \<^verbatim>\<open>format\<close> is called, so the first
  absent key is the one the \<^verbatim>\<open>KeyError\<close> carries, and no value is converted when a
  key is absent.
\<close>

definition post_render_info ::
  "('v \<Rightarrow> py_error + string) \<Rightarrow> (string \<rightharpoonup> 'v) \<Rightarrow> py_error + string" where
  "post_render_info fmt kwargs =
     (case getitem kwargs ''x'' of
        Inl e \<Rightarrow> Inl e
      | Inr vx \<Rightarrow>
          (case getitem kwargs ''y'' of
             Inl e \<Rightarrow> Inl e
           | Inr vy \<Rightarrow>
               (case getitem kwargs ''z'' of
                  Inl e \<Rightarrow> Inl e
                | Inr vz \<Rightarrow> format_info fmt vx vy vz)))"

text \<open>
  \<open>post_render_func fmt img kwargs\<close> is the call \<^verbatim>\<open>post_render_func(img, **kwargs)\<close>:
  \<open>img\<close> is passed by position and \<open>kwargs\<close> is the dict of keyword arguments. A
  keyword \<^verbatim>\<open>'img'\<close> would bind the parameter \<^verbatim>\<open>img\<close> a second time, and Python
  raises a \<^verbatim>\<open>TypeError\<close> before the body runs. Otherwise the body runs with
  \<^verbatim>\<open>kwargs\<close> bound to that dict.
\<close>

definition post_render_func ::
  "('v \<Rightarrow> py_error + string) \<Rightarrow> 'img \<Rightarrow> (string \<rightharpoonup> 'v) \<Rightarrow> py_error + 'img" where
  "post_render_func fmt img kwargs =
     (if ''img'' \<in> dom kwargs then Inl (TypeError ''img'')
      else
        (case post_render_info fmt kwargs of
           Inl e \<Rightarrow> Inl e
         | Inr info \<Rightarrow> Inr img))"

subsection \<open>Ranges, boxes and dataframes\<close>

text \<open>
  A range is a pair \<^verbatim>\<open>(lo, hi)\<close> of floats; \<^verbatim>\<open>r[0]\<close> and \<^verbatim>\<open>r[1]\<close> are \<open>fst\<close>
  and \<open>snd\<close>. The floats are only compared, never computed with, so they are reals.
\<close>

type_synonym coord_range = "real \<times> real"

text \<open>shapely's \<^verbatim>\<open>box(minx, miny, maxx, maxy)\<close>.\<close>

record bbox =
  minx :: real
  miny :: real
  maxx :: real
  maxy :: real

definition box :: "real \<Rightarrow> real \<Rightarrow> real \<Rightarrow> real \<Rightarrow> bbox" where
  "box x0 y0 x1 y1 = \<lparr>minx = x0, miny = y0, maxx = x1, maxy = y1\<rparr>"

text \<open>
  A GeoDataFrame is the list of its rows. A row has a \<^verbatim>\<open>geometry\<close> column; its other
  columns are the record's extension.
\<close>

record 'g row =
  geometry :: 'g

text \<open>
  geopandas' coordinate indexer \<^verbatim>\<open>obj.cx[xs, ys]\<close> with two slices: the first slice is
  the x interval, the second the y interval.
  \<^verbatim>\<open>
  xs, ys = key
  bbox = box(xs.start, ys.start, xs.stop, ys.stop)
  idx = obj.intersects(bbox)
  return obj[idx]
  \<close>
  \<open>intersects\<close> is shapely's test of a geometry against the box. A slice without a
  start or a stop would take the bound from the dataframe's total bounds; the slices of
  the notebook always have both.
\<close>

definition cx ::
  "('g \<Rightarrow> bbox \<Rightarrow> bool) \<Rightarrow> ('g, 'm) row_scheme list \<Rightarrow> real \<times> real \<Rightarrow> real \<times> real
     \<Rightarrow> ('g, 'm) row_scheme list" where
  "cx intersects obj xs ys =
     filter (\<lambda>r. intersects (geometry r) (box (fst xs) (fst ys) (snd xs) (snd ys))) obj"

subsection \<open>\<^verbatim>\<open>load_data_func\<close>\<close>

text \<open>
  \<^verbatim>\<open>
  def load_data_func(x_range, y_range):
      return world.cx[y_range[0]:y_range[1], x_range[0]:x_range[1]]
  \<close>
  \<open>world\<close> is the notebook's global dataframe.
\<close>

definition load_data_func ::
  "('g \<Rightarrow> bbox \<Rightarrow> bool) \<Rightarrow> ('g, 'm) row_scheme list \<Rightarrow> coord_range \<Rightarrow> coord_range
     \<Rightarrow> ('g, 'm) row_scheme list" where
  "load_data_func intersects world x_range y_range =
     cx intersects world (fst y_range, snd y_range) (fst x_range, snd x_range)"

text \<open>
  The bounding-box filter in the specification's words: the rows of \<open>world\<close> whose
  geometry meets the box that spans \<open>x_range\<close> along x and \<open>y_range\<close> along y.
\<close>

definition bounding_box_filter ::
  "('g \<Rightarrow> bbox \<Rightarrow> bool) \<Rightarrow> ('g, 'm) row_scheme list \<Rightarrow> coord_range \<Rightarrow> coord_range
     \<Rightarrow> ('g, 'm) row_scheme list" where
  "bounding_box_filter intersects world x_range y_range =
     filter (\<lambda>r. intersects (geometry r)
                   (box (fst x_range) (fst y_range) (snd x_range) (snd y_range))) world"

text \<open>
  One kind of geometry for concrete inputs: an axis-parallel rectangle, given by two
  opposite corners. Two closed rectangles intersect when their x intervals overlap and
  their y intervals overlap.
\<close>

definition rect_intersects :: "bbox \<Rightarrow> bbox \<Rightarrow> bool" where
  "rect_intersects g b \<longleftrightarrow>
     min (minx g) (maxx g) \<le> max (minx b) (maxx b) \<and>
     min (minx b) (maxx b) \<le> max (minx g) (maxx g) \<and>
     min (miny g) (maxy g) \<le> max (miny b) (maxy b) \<and>
     min (miny b) (maxy b) \<le> max (miny g) (maxy g)"

subsection \<open>\<^verbatim>\<open>rasterize_func\<close>\<close>

text \<open>The keyword arguments of \<^verbatim>\<open>ds.Canvas\<close> the notebook sets.\<close>

record canvas =
  cvs_x_range :: coord_range
  cvs_y_range :: coord_range
  cvs_plot_height :: int
  cvs_plot_width :: int

text \<open>
  \<^verbatim>\<open>
  def rasterize_func(df, x_range, y_range, height, width):
      spatialpandas_df = GeoDataFrame(df, geometry='geometry')
      # aggregate
      cvs = ds.Canvas(x_range=x_range, y_range=y_range,
                      plot_height=height, plot_width=width)
      agg = cvs.polygons(spatialpandas_df, 'geometry')
      return agg
  \<close>
  \<open>GeoDataFrame\<close> is spatialpandas' constructor and \<open>polygons\<close> is datashader's
  \<^verbatim>\<open>Canvas.polygons\<close>; either may raise.
\<close>

definition rasterize_func ::
  "('df \<Rightarrow> string \<Rightarrow> py_error + 'sdf) \<Rightarrow> (canvas \<Rightarrow> 'sdf \<Rightarrow> string \<Rightarrow> py_error + 'agg)
     \<Rightarrow> 'df \<Rightarrow> coord_range \<Rightarrow> coord_range \<Rightarrow> int \<Rightarrow> int \<Rightarrow> py_error + 'agg" where
  "rasterize_func GeoDataFrame polygons df x_range y_range height width =
     (case GeoDataFrame df ''geometry'' of
        Inl e \<Rightarrow> Inl e
      | Inr spatialpandas_df \<Rightarrow>
          (let cvs = \<lparr>cvs_x_range = x_range, cvs_y_range = y_range,
                      cvs_plot_height = height, cvs_plot_width = width\<rparr>
           in polygons cvs spatialpandas_df ''geometry''))"

text \<open>
  A two-dimensional DataArray as the list of its rows; \<open>has_shape agg h w\<close> says that it
  has \<open>h\<close> rows of \<open>w\<close> cells each.
\<close>

definition has_shape :: "'c list list \<Rightarrow> int \<Rightarrow> int \<Rightarrow> bool" where
  "has_shape agg h w \<longleftrightarrow> int (length agg) = h \<and> list_all (\<lambda>r. int (length r) = w) agg"

subsection \<open>\<^verbatim>\<open>shader_func\<close>\<close>

text \<open>An argument with a default value: left out by the caller, or given.\<close>

datatype 'a arg = Omitted | Given 'a

text \<open>
  \<^verbatim>\<open>
  def shader_func(agg, span=None):
      img = tf.shade(agg, cmap=['black', 'teal'], span=span, how='log')
      img = tf.set_background(img, 'black')
      return img
  \<close>
  A span is \<^verbatim>\<open>None\<close> or a pair \<^verbatim>\<open>(min, max)\<close>. \<open>shade\<close> takes the aggregate, then
  \<^verbatim>\<open>cmap\<close>, \<^verbatim>\<open>span\<close> and \<^verbatim>\<open>how\<close>; \<open>set_background\<close> takes the image and the
  colour.
\<close>

definition shader_func ::
  "('agg \<Rightarrow> string list \<Rightarrow> coord_range option \<Rightarrow> string \<Rightarrow> py_error + 'img)
     \<Rightarrow> ('img \<Rightarrow> string \<Rightarrow> py_error + 'img)
     \<Rightarrow> 'agg \<Rightarrow> coord_range option arg \<Rightarrow> py_error + 'img" where
  "shader_func shade set_background agg span_arg =
     (let span = (case span_arg of Omitted \<Rightarrow> None | Given s \<Rightarrow> s) in
      case shade agg [''black'', ''teal''] span ''log'' of
        Inl e \<Rightarrow> Inl e
      | Inr img \<Rightarrow> set_background img ''black'')"

subsection \<open>The notebook's top-level code\<close>

text \<open>
  The values the notebook passes to library functions: tuples of floats and of ints,
  ints, booleans, strings, a \<^verbatim>\<open>range(start, stop)\<close>, a library object (named by the
  expression that yields it), and the four callbacks, each with its signature.
\<close>

datatype ('df, 'agg, 'img, 'pil, 'v) py_value =
    PyFloats "real list"
  | PyInts "int list"
  | PyInt int
  | PyBool bool
  | PyStr string
  | PyRange int int
  | PyObject string
  | PyLoadData "coord_range \<Rightarrow> coord_range \<Rightarrow> 'df"
  | PyRasterize "'df \<Rightarrow> coord_range \<Rightarrow> coord_range \<Rightarrow> int \<Rightarrow> int \<Rightarrow> py_error + 'agg"
  | PyShader "'agg \<Rightarrow> coord_range option arg \<Rightarrow> py_error + 'img"
  | PyPostRender "'pil \<Rightarrow> (string \<rightharpoonup> 'v) \<Rightarrow> py_error + 'pil"

text \<open>
  A call of a library function: the callee, the positional arguments in order and the
  keyword arguments in order.
\<close>

record ('df, 'agg, 'img, 'pil, 'v) call =
  call_func :: string
  call_args :: "('df, 'agg, 'img, 'pil, 'v) py_value list"
  call_kwargs :: "(string \<times> ('df, 'agg, 'img, 'pil, 'v) py_value) list"

text \<open>The elements of Python's \<^verbatim>\<open>range(start, stop)\<close>.\<close>

definition range_elems :: "int \<Rightarrow> int \<Rightarrow> int list" where
  "range_elems start stop = [start..stop - 1]"

text \<open>
  \<^verbatim>\<open>
  full_extent_of_data = (-20e6, 20e6,
                         -20e6, 20e6)

  output_path = '/Users/bcollins/temp/test_world/'
  results = render_tiles(full_extent_of_data,
                         range(0, 8),
                         load_data_func=load_data_func,
                         rasterize_func=rasterize_func,
                         shader_func=shader_func,
                         post_render_func=post_render_func,
                         output_path=output_path,
                         color_ranging_strategy=(0,2))
  \<close>
\<close>

definition full_extent_of_data :: "real list" where
  "full_extent_of_data = [- 20000000, 20000000, - 20000000, 20000000]"

definition output_path :: string where
  "output_path = ''/Users/bcollins/temp/test_world/''"

definition render_tiles_call ::
  "('g \<Rightarrow> bbox \<Rightarrow> bool) \<Rightarrow> ('g, 'm) row_scheme list
     \<Rightarrow> (('g, 'm) row_scheme list \<Rightarrow> string \<Rightarrow> py_error + 'sdf)
     \<Rightarrow> (canvas \<Rightarrow> 'sdf \<Rightarrow> string \<Rightarrow> py_error + 'agg)
     \<Rightarrow> ('agg \<Rightarrow> string list \<Rightarrow> coord_range option \<Rightarrow> string \<Rightarrow> py_error + 'img)
     \<Rightarrow> ('img \<Rightarrow> string \<Rightarrow> py_error + 'img)
     \<Rightarrow> ('v \<Rightarrow> py_error + string)
     \<Rightarrow> (('g, 'm) row_scheme list, 'agg, 'img, 'pil, 'v) call" where
  "render_tiles_call intersects world GeoDataFrame polygons shade set_background fmt =
     \<lparr>call_func = ''render_tiles'',
      call_args = [PyFloats full_extent_of_data, PyRange 0 8],
      call_kwargs =
        [(''load_data_func'', PyLoadData (load_data_func intersects world)),
         (''rasterize_func'', PyRasterize (rasterize_func GeoDataFrame polygons)),
         (''shader_func'', PyShader (shader_func shade set_background)),
         (''post_render_func'', PyPostRender (post_render_func fmt)),
         (''output_path'', PyStr output_path),
         (''color_ranging_strategy'', PyInts [0, 2])]\<rparr>"

text \<open>
  \<^verbatim>\<open>
  p.add_tile(WMTSTileSource(url="http://localhost:10000/{Z}/{X}/{Y}.png"),
             render_parents=False)
  \<close>
\<close>

definition tile_source_url :: string where
  "tile_source_url = ''http://localhost:10000/{Z}/{X}/{Y}.png''"

text \<open>
  The library calls of the notebook's code cells, cell by cell, in the order they are
  made. Imports, function definitions, assignments and indexing make no call; the
  built-ins \<^verbatim>\<open>range\<close> and \<^verbatim>\<open>int\<close> are evaluated. The parameters are the library
  functions the callbacks use and the dataframe the global \<^verbatim>\<open>world\<close> holds after the
  third cell.
\<close>

definition notebook ::
  "('g \<Rightarrow> bbox \<Rightarrow> bool) \<Rightarrow> ('g, 'm) row_scheme list
     \<Rightarrow> (('g, 'm) row_scheme list \<Rightarrow> string \<Rightarrow> py_error + 'sdf)
     \<Rightarrow> (canvas \<Rightarrow> 'sdf \<Rightarrow> string \<Rightarrow> py_error + 'agg)
     \<Rightarrow> ('agg \<Rightarrow> string list \<Rightarrow> coord_range option \<Rightarrow> string \<Rightarrow> py_error + 'img)
     \<Rightarrow> ('img \<Rightarrow> string \<Rightarrow> py_error + 'img)
     \<Rightarrow> ('v \<Rightarrow> py_error + string)
     \<Rightarrow> (('g, 'm) row_scheme list, 'agg, 'img, 'pil, 'v) call list list" where
  "notebook intersects world GeoDataFrame polygons shade set_background fmt =
     [[],
      [],
      [\<lparr>call_func = ''gpd.datasets.get_path'', call_args = [PyStr ''naturalearth_lowres''], call_kwargs = []\<rparr>,
       \<lparr>call_func = ''gpd.read_file'', call_args = [PyObject ''gpd.datasets.get_path(...)''], call_kwargs = []\<rparr>,
       \<lparr>call_func = ''world.to_crs'', call_args = [PyStr ''EPSG:3857''], call_kwargs = []\<rparr>,
       \<lparr>call_func = ''world.plot'', call_args = [], call_kwargs = [(''figsize'', PyInts [7, 7])]\<rparr>],
      [],
      [],
      [],
      [],
      [render_tiles_call intersects world GeoDataFrame polygons shade set_background fmt],
      [\<lparr>call_func = ''output_notebook'', call_args = [], call_kwargs = []\<rparr>],
      [\<lparr>call_func = ''figure'', call_args = [],
        call_kwargs = [(''width'', PyInt 800), (''height'', PyInt 800),
                  (''x_range'', PyInts [- 20000000, 20000000]),
                  (''y_range'', PyInts [- 20000000, 20000000]),
                  (''tools'', PyStr ''pan,wheel_zoom,reset'')]\<rparr>,
       \<lparr>call_func = ''WMTSTileSource'', call_args = [], call_kwargs = [(''url'', PyStr tile_source_url)]\<rparr>,
       \<lparr>call_func = ''p.add_tile'', call_args = [PyObject ''WMTSTileSource(...)''],
        call_kwargs = [(''render_parents'', PyBool False)]\<rparr>,
       \<lparr>call_func = ''show'', call_args = [PyObject ''p''], call_kwargs = []\<rparr>],
      []]"

definition calls_to ::
  "string \<Rightarrow> ('df, 'agg, 'img, 'pil, 'v) call list list \<Rightarrow> ('df, 'agg, 'img, 'pil, 'v) call list" where
  "calls_to f cells = filter (\<lambda>c. call_func c = f) (concat cells)"

text \<open>
  Modelled from the spec: the declaration of \<^verbatim>\<open>render_tiles\<close> is not part of the
  notebook. Its color-ranging strategy is "a policy for choosing the value range used
  when mapping aggregated values to colors, either fixed or computed per-tile/per-pyramid".
  A pair of numbers is the fixed range itself; a string names a way to compute one.
\<close>

datatype color_ranging_strategy = Fixed int int | Computed string

fun color_ranging_of :: "('df, 'agg, 'img, 'pil, 'v) py_value \<Rightarrow> color_ranging_strategy option" where
  "color_ranging_of (PyInts [lo, hi]) = Some (Fixed lo hi)"
| "color_ranging_of (PyStr name) = Some (Computed name)"
| "color_ranging_of _ = None"

subsection \<open>Tiles and their addresses\<close>

text \<open>
  Modelled from the spec: a tile is "one rectangular cell of a spatial pyramid at a given
  zoom level, addressed by (zoom, x, y)".
\<close>

record tile =
  tile_zoom :: int
  tile_x :: int
  tile_y :: int

text \<open>
  Modelled from the spec: \<^verbatim>\<open>render_tiles\<close> is not part of the notebook. It hands each
  output tile to the post-render hook together with "additional image properties" (the
  notebook's words); they are the address of the tile being written, under the keys
  \<^verbatim>\<open>'x'\<close>, \<^verbatim>\<open>'y'\<close> and \<^verbatim>\<open>'z'\<close>.
\<close>

definition tile_extras :: "tile \<Rightarrow> (string \<rightharpoonup> int)" where
  "tile_extras t = [''x'' \<mapsto> tile_x t, ''y'' \<mapsto> tile_y t, ''z'' \<mapsto> tile_zoom t]"

text \<open>
  Bokeh's tile source fills its URL template for a tile by replacing the first
  \<^verbatim>\<open>{X}\<close>, then the first \<^verbatim>\<open>{Y}\<close>, then the first \<^verbatim>\<open>{Z}\<close> by the tile's
  coordinates as text.
\<close>

fun starts_with :: "string \<Rightarrow> string \<Rightarrow> bool" where
  "starts_with [] s = True"
| "starts_with (p # ps) [] = False"
| "starts_with (p # ps) (c # cs) = (p = c \<and> starts_with ps cs)"

fun replace_first :: "string \<Rightarrow> string \<Rightarrow> string \<Rightarrow> string" where
  "replace_first pat rep [] = (if pat = [] then rep else [])"
| "replace_first pat rep (c # cs) =
     (if starts_with pat (c # cs) then rep @ drop (length pat) (c # cs)
      else c # replace_first pat rep cs)"

definition get_image_url :: "string \<Rightarrow> (int \<Rightarrow> string) \<Rightarrow> tile \<Rightarrow> string" where
  "get_image_url url str t =
     replace_first ''{Z}'' (str (tile_zoom t))
       (replace_first ''{Y}'' (str (tile_y t))
         (replace_first ''{X}'' (str (tile_x t)) url))"

section \<open>Properties\<close>

subsection \<open>The post-render hook\<close>

lemma post_render_info_lookups:
  "post_render_info fmt kwargs =
     (if kwargs ''x'' = None then Inl (KeyError ''x'')
      else if kwargs ''y'' = None then Inl (KeyError ''y'')
      else if kwargs ''z'' = None then Inl (KeyError ''z'')
      else format_info fmt (the (kwargs ''x'')) (the (kwargs ''y'')) (the (kwargs ''z'')))"
  by (auto simp: post_render_info_def getitem_def split: option.splits)

lemma format_info_returns:
  assumes "fmt vx = Inr sx" and "fmt vy = Inr sy" and "fmt vz = Inr sz"
  shows "format_info fmt vx vy vz = Inr (''x='' @ sx @ '',y='' @ sy @ '',z='' @ sz)"
  using assms by (simp add: format_info_def)

lemma format_info_raises:
  assumes "format_info fmt vx vy vz = Inl e"
  shows "fmt vx = Inl e \<or> fmt vy = Inl e \<or> fmt vz = Inl e"
  using assms by (auto simp: format_info_def split: sum.splits)

text \<open>
  The claim C2 as written, every \<open>kwargs\<close> with the keys \<^verbatim>\<open>'x'\<close>, \<^verbatim>\<open>'y'\<close>, \<^verbatim>\<open>'z'\<close>
  returns \<open>img\<close>, fails twice. With a fourth key \<^verbatim>\<open>'img'\<close> the call raises a
  \<^verbatim>\<open>TypeError\<close>; and with a value whose conversion raises (here \<open>False\<close>, standing
  for an object whose \<^verbatim>\<open>__format__\<close> raises \<^verbatim>\<open>ValueError\<close>) the call raises that
  error. In both cases the three keys are present.
\<close>

theorem post_render_func_noop_counterexample:
  "''x'' \<in> dom [''x'' \<mapsto> 1, ''y'' \<mapsto> 0, ''z'' \<mapsto> 1, ''img'' \<mapsto> (5::int)]
   \<and> ''y'' \<in> dom [''x'' \<mapsto> 1, ''y'' \<mapsto> 0, ''z'' \<mapsto> 1, ''img'' \<mapsto> (5::int)]
   \<and> ''z'' \<in> dom [''x'' \<mapsto> 1, ''y'' \<mapsto> 0, ''z'' \<mapsto> 1, ''img'' \<mapsto> (5::int)]
   \<and> post_render_func (\<lambda>n::int. Inr ''n'') ''tile''
        [''x'' \<mapsto> 1, ''y'' \<mapsto> 0, ''z'' \<mapsto> 1, ''img'' \<mapsto> 5] = Inl (TypeError ''img'')
   \<and> ''x'' \<in> dom [''x'' \<mapsto> True, ''y'' \<mapsto> False, ''z'' \<mapsto> True]
   \<and> ''y'' \<in> dom [''x'' \<mapsto> True, ''y'' \<mapsto> False, ''z'' \<mapsto> True]
   \<and> ''z'' \<in> dom [''x'' \<mapsto> True, ''y'' \<mapsto> False, ''z'' \<mapsto> True]
   \<and> post_render_func (\<lambda>b. if b then Inr ''ok'' else Inl (Raised ''ValueError'')) ''tile''
        [''x'' \<mapsto> True, ''y'' \<mapsto> False, ''z'' \<mapsto> True] = Inl (Raised ''ValueError'')"
  by (simp add: post_render_func_def post_render_info_lookups format_info_def)

text \<open>
  C2, amended. Whenever \<open>kwargs\<close> holds the keys \<^verbatim>\<open>'x'\<close>, \<^verbatim>\<open>'y'\<close> and \<^verbatim>\<open>'z'\<close>, does
  not hold the key \<^verbatim>\<open>'img'\<close>, and the conversion of each of the three values returns,
  \<^verbatim>\<open>post_render_func(img, **kwargs)\<close> returns \<open>img\<close> itself, whatever the three values
  are and whatever else \<open>kwargs\<close> holds.
\<close>

theorem post_render_func_noop:
  assumes "''img'' \<notin> dom kwargs"
    and "kwargs ''x'' = Some vx" and "kwargs ''y'' = Some vy" and "kwargs ''z'' = Some vz"
    and "fmt vx = Inr sx" and "fmt vy = Inr sy" and "fmt vz = Inr sz"
  shows "post_render_func fmt img kwargs = Inr img"
proof -
  from assms(2-4) have "post_render_info fmt kwargs = format_info fmt vx vy vz"
    by (simp add: post_render_info_lookups)
  also from assms(5-7) have "\<dots> = Inr (''x='' @ sx @ '',y='' @ sy @ '',z='' @ sz)"
    by (rule format_info_returns)
  finally show ?thesis
    using assms(1) by (simp add: post_render_func_def)
qed

theorem post_render_func_noop_witness:
  "post_render_func (\<lambda>n::int. if n = 0 then Inr ''0'' else Inr ''1'') ''tile''
     [''x'' \<mapsto> 1, ''y'' \<mapsto> 0, ''z'' \<mapsto> 1, ''level'' \<mapsto> 1] = Inr ''tile''"
proof -
  let ?kwargs = "[''x'' \<mapsto> 1, ''y'' \<mapsto> 0, ''z'' \<mapsto> 1, ''level'' \<mapsto> (1::int)]"
  let ?fmt = "\<lambda>n::int. if n = 0 then Inr ''0'' else (Inr ''1'' :: py_error + string)"
  have no_img: "''img'' \<notin> dom ?kwargs" by simp
  have x: "?kwargs ''x'' = Some 1" and y: "?kwargs ''y'' = Some 0" and z: "?kwargs ''z'' = Some 1"
    by simp_all
  have one: "?fmt 1 = Inr ''1''" and zero: "?fmt 0 = Inr ''0''"
    by simp_all
  from post_render_func_noop [OF no_img x y z one zero one]
  show ?thesis .
qed

text \<open>
  The claim C3 as written, a \<^verbatim>\<open>KeyError\<close> exactly when one of the three keys is absent,
  fails in both directions. With \<^verbatim>\<open>'x'\<close>, \<^verbatim>\<open>'y'\<close>, \<^verbatim>\<open>'z'\<close> absent and \<^verbatim>\<open>'img'\<close>
  present the call raises a \<^verbatim>\<open>TypeError\<close>, not a \<^verbatim>\<open>KeyError\<close>; and with all three
  keys present a value whose conversion raises a \<^verbatim>\<open>KeyError\<close> (here \<open>False\<close>) makes
  the call raise it.
\<close>

theorem post_render_func_KeyError_iff_counterexample:
  "[''img'' \<mapsto> (5::int)] ''x'' = None
   \<and> post_render_func (\<lambda>n::int. Inr ''n'') ''tile'' [''img'' \<mapsto> 5] = Inl (TypeError ''img'')
   \<and> [''x'' \<mapsto> True, ''y'' \<mapsto> False, ''z'' \<mapsto> True] ''x'' \<noteq> None
   \<and> [''x'' \<mapsto> True, ''y'' \<mapsto> False, ''z'' \<mapsto> True] ''y'' \<noteq> None
   \<and> [''x'' \<mapsto> True, ''y'' \<mapsto> False, ''z'' \<mapsto> True] ''z'' \<noteq> None
   \<and> post_render_func (\<lambda>b. if b then Inr ''ok'' else Inl (KeyError ''field'')) ''tile''
        [''x'' \<mapsto> True, ''y'' \<mapsto> False, ''z'' \<mapsto> True] = Inl (KeyError ''field'')"
  by (simp add: post_render_func_def post_render_info_lookups format_info_def)

text \<open>
  C3, amended. When \<open>kwargs\<close> does not hold the key \<^verbatim>\<open>'img'\<close> and the conversion of no
  value under \<^verbatim>\<open>'x'\<close>, \<^verbatim>\<open>'y'\<close>, \<^verbatim>\<open>'z'\<close> raises a \<^verbatim>\<open>KeyError\<close>,
  \<^verbatim>\<open>post_render_func\<close> raises a \<^verbatim>\<open>KeyError\<close> exactly when one of the keys
  \<^verbatim>\<open>'x'\<close>, \<^verbatim>\<open>'y'\<close>, \<^verbatim>\<open>'z'\<close> is absent from \<open>kwargs\<close>.
\<close>

theorem post_render_func_KeyError_iff:
  assumes no_img: "''img'' \<notin> dom kwargs"
    and fmt_x: "\<And>v k. kwargs ''x'' = Some v \<Longrightarrow> fmt v \<noteq> Inl (KeyError k)"
    and fmt_y: "\<And>v k. kwargs ''y'' = Some v \<Longrightarrow> fmt v \<noteq> Inl (KeyError k)"
    and fmt_z: "\<And>v k. kwargs ''z'' = Some v \<Longrightarrow> fmt v \<noteq> Inl (KeyError k)"
  shows "(\<exists>k. post_render_func fmt img kwargs = Inl (KeyError k))
     \<longleftrightarrow> (kwargs ''x'' = None \<or> kwargs ''y'' = None \<or> kwargs ''z'' = None)"
proof
  assume "\<exists>k. post_render_func fmt img kwargs = Inl (KeyError k)"
  then obtain k where raised: "post_render_info fmt kwargs = Inl (KeyError k)"
    using no_img by (auto simp: post_render_func_def split: sum.splits)
  show "kwargs ''x'' = None \<or> kwargs ''y'' = None \<or> kwargs ''z'' = None"
  proof (rule ccontr)
    assume "\<not> (kwargs ''x'' = None \<or> kwargs ''y'' = None \<or> kwargs ''z'' = None)"
    then obtain vx vy vz where
      present: "kwargs ''x'' = Some vx" "kwargs ''y'' = Some vy" "kwargs ''z'' = Some vz"
      by auto
    with raised have "format_info fmt vx vy vz = Inl (KeyError k)"
      by (simp add: post_render_info_lookups)
    then have "fmt vx = Inl (KeyError k) \<or> fmt vy = Inl (KeyError k) \<or> fmt vz = Inl (KeyError k)"
      by (rule format_info_raises)
    with fmt_x [OF present(1)] fmt_y [OF present(2)] fmt_z [OF present(3)]
    show False by blast
  qed
next
  assume "kwargs ''x'' = None \<or> kwargs ''y'' = None \<or> kwargs ''z'' = None"
  then show "\<exists>k. post_render_func fmt img kwargs = Inl (KeyError k)"
    using no_img by (auto simp: post_render_func_def post_render_info_lookups)
qed

theorem post_render_func_KeyError_iff_witness:
  "post_render_func (\<lambda>n::int. Inr ''n'') ''tile'' [''x'' \<mapsto> 1, ''y'' \<mapsto> 0] = Inl (KeyError ''z'')
   \<and> (\<exists>k. post_render_func (\<lambda>n::int. Inr ''n'') ''tile'' [''x'' \<mapsto> 1, ''y'' \<mapsto> 0]
            = Inl (KeyError k))"
proof -
  let ?kwargs = "[''x'' \<mapsto> 1, ''y'' \<mapsto> (0::int)]"
  let ?fmt = "\<lambda>n::int. (Inr ''n'' :: py_error + string)"
  have "(\<exists>k. post_render_func ?fmt ''tile'' ?kwargs = Inl (KeyError k))
          \<longleftrightarrow> (?kwargs ''x'' = None \<or> ?kwargs ''y'' = None \<or> ?kwargs ''z'' = None)"
    by (rule post_render_func_KeyError_iff) simp_all
  moreover have "?kwargs ''z'' = None"
    by simp
  ultimately have "\<exists>k. post_render_func ?fmt ''tile'' ?kwargs = Inl (KeyError k)"
    by blast
  moreover have "post_render_func ?fmt ''tile'' ?kwargs = Inl (KeyError ''z'')"
    by (simp add: post_render_func_def post_render_info_lookups)
  ultimately show ?thesis by blast
qed

subsection \<open>Loading the data of a supertile\<close>

text \<open>
  What \<^verbatim>\<open>load_data_func\<close> computes: the bounding-box filter with the two ranges
  exchanged. The x interval of the box is \<open>y_range\<close>, its y interval is \<open>x_range\<close>.
\<close>

lemma load_data_func_swaps_ranges:
  "load_data_func intersects world x_range y_range
     = bounding_box_filter intersects world y_range x_range"
  by (simp add: load_data_func_def bounding_box_filter_def cx_def)

text \<open>
  C1. \<^verbatim>\<open>load_data_func(x_range, y_range)\<close> should return the rows of \<open>world\<close> within
  the box that spans \<open>x_range\<close> along x and \<open>y_range\<close> along y. It does not: for the
  north-west quarter of the full extent, \<open>x_range = (-20e6, 0)\<close> and
  \<open>y_range = (0, 20e6)\<close>, a polygon lying inside that quarter is not loaded, whereas
  the bounding-box filter keeps it.
\<close>

theorem load_data_func_transposed_box:
  "load_data_func rect_intersects
     [\<lparr>geometry = \<lparr>minx = - 14000000, miny = 3000000, maxx = - 8000000, maxy = 8000000\<rparr>\<rparr>]
     (- 20000000, 0) (0, 20000000) = []
   \<and> bounding_box_filter rect_intersects
     [\<lparr>geometry = \<lparr>minx = - 14000000, miny = 3000000, maxx = - 8000000, maxy = 8000000\<rparr>\<rparr>]
     (- 20000000, 0) (0, 20000000)
     = [\<lparr>geometry = \<lparr>minx = - 14000000, miny = 3000000, maxx = - 8000000, maxy = 8000000\<rparr>\<rparr>]"
  by (simp add: load_data_func_def bounding_box_filter_def cx_def box_def rect_intersects_def)

subsection \<open>Rasterizing\<close>

text \<open>
  C5. \<^verbatim>\<open>rasterize_func(df, x_range, y_range, height, width)\<close> returns an aggregate
  exactly when \<^verbatim>\<open>GeoDataFrame(df, geometry='geometry')\<close> returns a dataframe and
  \<^verbatim>\<open>polygons\<close> of the canvas with the given \<open>x_range\<close> and \<open>y_range\<close>,
  \<open>plot_height = height\<close> and \<open>plot_width = width\<close> returns that aggregate for the
  dataframe's \<^verbatim>\<open>'geometry'\<close> column.
\<close>

theorem rasterize_func_returns_iff:
  "rasterize_func GeoDataFrame polygons df x_range y_range height width = Inr agg
     \<longleftrightarrow> (\<exists>spatialpandas_df.
            GeoDataFrame df ''geometry'' = Inr spatialpandas_df \<and>
            polygons \<lparr>cvs_x_range = x_range, cvs_y_range = y_range,
                       cvs_plot_height = height, cvs_plot_width = width\<rparr>
                     spatialpandas_df ''geometry'' = Inr agg)"
  by (auto simp: rasterize_func_def split: sum.splits)

theorem rasterize_func_returns_iff_witness:
  "rasterize_func
     (\<lambda>df col. if col = ''geometry'' then Inr df else Inl (Raised ''ValueError''))
     (\<lambda>cvs source col. Inr (cvs, source, col))
     [1, 2 :: nat] (0, 10) (0, 5) 4 8
   = Inr (\<lparr>cvs_x_range = (0, 10), cvs_y_range = (0, 5),
           cvs_plot_height = 4, cvs_plot_width = 8\<rparr>, [1, 2], ''geometry'')"
  using rasterize_func_returns_iff
    [of "\<lambda>df col. if col = ''geometry'' then Inr df else Inl (Raised ''ValueError'')"
        "\<lambda>cvs source col. Inr (cvs, source, col)"
        "[1, 2 :: nat]" "(0, 10)" "(0, 5)" 4 8
        "(\<lparr>cvs_x_range = (0, 10), cvs_y_range = (0, 5),
           cvs_plot_height = 4, cvs_plot_width = 8\<rparr>, [1, 2], ''geometry'')"]
  by simp

text \<open>
  C10. When \<^verbatim>\<open>Canvas.polygons\<close> keeps datashader's contract (the aggregate of a canvas
  has \<open>plot_height\<close> rows and \<open>plot_width\<close> columns), the aggregate
  \<^verbatim>\<open>rasterize_func(df, x_range, y_range, height, width)\<close> returns has \<open>height\<close> rows
  and \<open>width\<close> columns.
\<close>

theorem rasterize_func_shape:
  assumes contract:
      "\<And>cvs source col a. polygons cvs source col = Inr a
         \<Longrightarrow> has_shape a (cvs_plot_height cvs) (cvs_plot_width cvs)"
    and returned:
      "rasterize_func GeoDataFrame polygons df x_range y_range height width = Inr agg"
  shows "has_shape agg height width"
proof -
  from returned obtain sdf where
    "polygons \<lparr>cvs_x_range = x_range, cvs_y_range = y_range,
               cvs_plot_height = height, cvs_plot_width = width\<rparr> sdf ''geometry'' = Inr agg"
    by (auto simp: rasterize_func_def split: sum.splits)
  from contract [OF this] show ?thesis
    by simp
qed

theorem rasterize_func_shape_witness:
  "rasterize_func (\<lambda>df col. Inr df)
     (\<lambda>cvs source col.
        if 0 \<le> cvs_plot_height cvs \<and> 0 \<le> cvs_plot_width cvs
        then Inr (replicate (nat (cvs_plot_height cvs)) (replicate (nat (cvs_plot_width cvs)) (0::nat)))
        else Inl (Raised ''ValueError''))
     [1, 2 :: nat] (0, 10) (0, 5) 2 3
   = Inr [[0, 0, 0], [0, 0, 0]]
   \<and> has_shape [[0, 0, 0], [0, 0, 0 :: nat]] 2 3"
proof -
  let ?polygons = "\<lambda>cvs (source :: nat list) (col :: string).
        if 0 \<le> cvs_plot_height cvs \<and> 0 \<le> cvs_plot_width cvs
        then Inr (replicate (nat (cvs_plot_height cvs)) (replicate (nat (cvs_plot_width cvs)) (0::nat)))
        else Inl (Raised ''ValueError'')"
  have contract: "\<And>cvs source col a. ?polygons cvs source col = Inr a
         \<Longrightarrow> has_shape a (cvs_plot_height cvs) (cvs_plot_width cvs)"
    by (auto simp: has_shape_def list_all_iff split: if_splits)
  have returned: "rasterize_func (\<lambda>df col. Inr df) ?polygons [1, 2 :: nat] (0, 10) (0, 5) 2 3
           = Inr [[0, 0, 0], [0, 0, 0]]"
    by (simp add: rasterize_func_def numeral_2_eq_2 numeral_3_eq_3)
  from rasterize_func_shape [of ?polygons, OF contract returned] returned
  show ?thesis by simp
qed

subsection \<open>Shading\<close>

text \<open>
  C4. \<^verbatim>\<open>shader_func(agg, span)\<close> returns an image exactly when
  \<^verbatim>\<open>shade(agg, cmap=['black', 'teal'], span=span, how='log')\<close> returns one and
  \<^verbatim>\<open>set_background\<close> of that image with \<^verbatim>\<open>'black'\<close> returns the result; a call
  that leaves \<open>span\<close> out is the call with \<^verbatim>\<open>span=None\<close>.
\<close>

theorem shader_func_returns_iff:
  "(shader_func shade set_background agg (Given sp) = Inr img
      \<longleftrightarrow> (\<exists>shaded. shade agg [''black'', ''teal''] sp ''log'' = Inr shaded
                     \<and> set_background shaded ''black'' = Inr img))
   \<and> shader_func shade set_background agg Omitted
       = shader_func shade set_background agg (Given None)"
  by (auto simp: shader_func_def split: sum.splits)

theorem shader_func_returns_iff_witness:
  "shader_func
     (\<lambda>a cmap sp how. if how = ''log'' then Inr (a # cmap) else Inl (Raised ''ValueError''))
     (\<lambda>im colour. Inr (colour # im))
     ''agg'' (Given (Some (0, 2)))
   = Inr [''black'', ''agg'', ''black'', ''teal'']"
  using shader_func_returns_iff
    [of "\<lambda>a cmap sp how. if how = ''log'' then Inr (a # cmap) else Inl (Raised ''ValueError'')"
        "\<lambda>im colour. Inr (colour # im)"
        "''agg''" "Some (0, 2)" "[''black'', ''agg'', ''black'', ''teal'']"]
  by simp

subsection \<open>The call of \<^verbatim>\<open>render_tiles\<close>\<close>

text \<open>
  C6. The notebook calls \<^verbatim>\<open>render_tiles\<close> once. The keyword arguments of the call are,
  in order, \<^verbatim>\<open>load_data_func\<close>, \<^verbatim>\<open>rasterize_func\<close>, \<^verbatim>\<open>shader_func\<close>,
  \<^verbatim>\<open>post_render_func\<close>, \<^verbatim>\<open>output_path\<close> and \<^verbatim>\<open>color_ranging_strategy\<close>; each of
  the first four is bound to the notebook's function of that name, the fifth to the
  output path, and the sixth is present.
\<close>

theorem notebook_calls_render_tiles_once:
  "calls_to ''render_tiles''
       (notebook intersects world GeoDataFrame polygons shade set_background fmt)
     = [render_tiles_call intersects world GeoDataFrame polygons shade set_background fmt]
   \<and> map fst (call_kwargs (render_tiles_call intersects world GeoDataFrame polygons shade set_background fmt))
     = [''load_data_func'', ''rasterize_func'', ''shader_func'', ''post_render_func'',
        ''output_path'', ''color_ranging_strategy'']
   \<and> map_of (call_kwargs (render_tiles_call intersects world GeoDataFrame polygons shade set_background fmt))
        ''load_data_func'' = Some (PyLoadData (load_data_func intersects world))
   \<and> map_of (call_kwargs (render_tiles_call intersects world GeoDataFrame polygons shade set_background fmt))
        ''rasterize_func'' = Some (PyRasterize (rasterize_func GeoDataFrame polygons))
   \<and> map_of (call_kwargs (render_tiles_call intersects world GeoDataFrame polygons shade set_background fmt))
        ''shader_func'' = Some (PyShader (shader_func shade set_background))
   \<and> map_of (call_kwargs (render_tiles_call intersects world GeoDataFrame polygons shade set_background fmt))
        ''post_render_func'' = Some (PyPostRender (post_render_func fmt))
   \<and> map_of (call_kwargs (render_tiles_call intersects world GeoDataFrame polygons shade set_background fmt))
        ''output_path'' = Some (PyStr ''/Users/bcollins/temp/test_world/'')
   \<and> ''color_ranging_strategy''
        \<in> dom (map_of (call_kwargs (render_tiles_call intersects world GeoDataFrame polygons shade
                                   set_background fmt)))"
  by (simp add: calls_to_def notebook_def render_tiles_call_def output_path_def)

text \<open>
  C7. The color-ranging strategy of the call is the pair \<^verbatim>\<open>(0, 2)\<close>: the fixed range
  from 0 to 2, not a computed one.
\<close>

theorem render_tiles_color_ranging_fixed:
  "map_of (call_kwargs (render_tiles_call intersects world GeoDataFrame polygons shade set_background fmt))
        ''color_ranging_strategy'' = Some (PyInts [0, 2])
   \<and> color_ranging_of (PyInts [0, 2]) = Some (Fixed 0 2)"
  by (simp add: render_tiles_call_def)

text \<open>
  C8. The positional arguments of the call are the full extent
  \<^verbatim>\<open>(-20e6, 20e6, -20e6, 20e6)\<close> and \<^verbatim>\<open>range(0, 8)\<close>, whose elements are the zoom
  levels 0 to 7 and no others.
\<close>

theorem render_tiles_levels_and_extent:
  "call_args (render_tiles_call intersects world GeoDataFrame polygons shade set_background fmt)
     = [PyFloats [- 20000000, 20000000, - 20000000, 20000000], PyRange 0 8]
   \<and> range_elems 0 8 = [0, 1, 2, 3, 4, 5, 6, 7]
   \<and> (\<forall>z. z \<in> set (range_elems 0 8) \<longleftrightarrow> 0 \<le> z \<and> z \<le> 7)"
proof -
  have "range_elems 0 8 = [0, 1, 2, 3, 4, 5, 6, 7]"
    by (simp add: range_elems_def upto.simps)
  moreover have "\<forall>z. z \<in> set (range_elems 0 8) \<longleftrightarrow> 0 \<le> z \<and> z \<le> 7"
    by (auto simp: range_elems_def)
  ultimately show ?thesis
    by (simp add: render_tiles_call_def full_extent_of_data_def)
qed

subsection \<open>Tile addresses\<close>

lemma replace_first_skip:
  "CHR ''{'' \<notin> set u \<Longrightarrow>
     replace_first (CHR ''{'' # p) rep (u @ v) = u @ replace_first (CHR ''{'' # p) rep v"
  by (induction u) auto

lemma get_image_url_tile_source:
  assumes "\<And>n. CHR ''{'' \<notin> set (str n)"
  shows "get_image_url tile_source_url str t
           = ''http://localhost:10000/'' @ str (tile_zoom t) @ ''/'' @ str (tile_x t)
               @ ''/'' @ str (tile_y t) @ ''.png''"
proof -
  have x: "replace_first ''{X}'' (str (tile_x t)) tile_source_url
             = ''http://localhost:10000/{Z}/'' @ str (tile_x t) @ ''/{Y}.png''"
    by (simp add: tile_source_url_def)
  have y: "replace_first ''{Y}'' (str (tile_y t))
             (''http://localhost:10000/{Z}/'' @ str (tile_x t) @ ''/{Y}.png'')
             = ''http://localhost:10000/{Z}/'' @ str (tile_x t) @ ''/'' @ str (tile_y t) @ ''.png''"
    using assms by (simp add: replace_first_skip)
  have z: "replace_first ''{Z}'' (str (tile_zoom t))
             (''http://localhost:10000/{Z}/'' @ str (tile_x t) @ ''/'' @ str (tile_y t) @ ''.png'')
             = ''http://localhost:10000/'' @ str (tile_zoom t) @ ''/'' @ str (tile_x t)
                 @ ''/'' @ str (tile_y t) @ ''.png''"
    by simp
  show ?thesis
    unfolding get_image_url_def x y z ..
qed

text \<open>
  C9. A tile is addressed by (zoom, x, y) on both sides. Given the address of the tile
  being written under the keys \<^verbatim>\<open>'x'\<close>, \<^verbatim>\<open>'y'\<close>, \<^verbatim>\<open>'z'\<close>, the post-render hook
  completes, returns the image and formats exactly these three coordinates (the
  conversion of an int returns its text \<open>str n\<close>); and the
  preview's URL for the tile is the template with \<^verbatim>\<open>{Z}/{X}/{Y}.png\<close> filled by the
  same three coordinates. The text of a number holds no brace.
\<close>

theorem tile_addressing:
  assumes "\<And>n. CHR ''{'' \<notin> set (str n)"
  shows "post_render_func (\<lambda>n. Inr (str n)) img (tile_extras t) = Inr img
       \<and> post_render_info (\<lambda>n. Inr (str n)) (tile_extras t)
           = Inr (''x='' @ str (tile_x t) @ '',y='' @ str (tile_y t) @ '',z='' @ str (tile_zoom t))
       \<and> get_image_url tile_source_url str t
           = ''http://localhost:10000/'' @ str (tile_zoom t) @ ''/'' @ str (tile_x t)
               @ ''/'' @ str (tile_y t) @ ''.png''"
  using get_image_url_tile_source [OF assms]
  by (simp add: post_render_func_def post_render_info_lookups format_info_def tile_extras_def)

theorem tile_addressing_witness:
  "post_render_func (\<lambda>n::int. Inr (if n = 0 then ''0'' else ''1'')) ''tile''
       (tile_extras \<lparr>tile_zoom = 1, tile_x = 0, tile_y = 1\<rparr>) = Inr ''tile''
   \<and> post_render_info (\<lambda>n::int. Inr (if n = 0 then ''0'' else ''1''))
       (tile_extras \<lparr>tile_zoom = 1, tile_x = 0, tile_y = 1\<rparr>) = Inr ''x=0,y=1,z=1''
   \<and> get_image_url tile_source_url (\<lambda>n::int. if n = 0 then ''0'' else ''1'')
       \<lparr>tile_zoom = 1, tile_x = 0, tile_y = 1\<rparr> = ''http://localhost:10000/1/0/1.png''"
proof -
  have no_brace: "\<And>n::int. CHR ''{'' \<notin> set (if n = 0 then ''0'' else ''1'')"
    by simp
  from tile_addressing
         [of "\<lambda>n::int. if n = 0 then ''0'' else ''1''" "''tile''"
             "\<lparr>tile_zoom = 1, tile_x = 0, tile_y = 1\<rparr>", OF no_brace]
  show ?thesis by simp
qed

end
